theory Spec2Isabelle
  imports Main "HOL-Library.Code_Target_Nat"
begin

section \<open>JavaScript strings and values used by the views\<close>

text \<open>
  A string is the sequence of its UTF-16 code units, each a number below 65536, as
  \<open>length\<close>, \<open>includes\<close> and \<open>trim\<close> see it. \<open>js\<close> writes a string of ASCII
  characters from its literal.
\<close>

type_synonym jsstring = "nat list"

definition js :: "string \<Rightarrow> jsstring" where
  "js s = map of_char s"

text \<open>
  The white space that \<open>trim\<close> strips: the WhiteSpace and LineTerminator code points of
  ECMAScript. These are tab, line feed, vertical tab, form feed, carriage return and
  space; no-break space (160); the other space separators 5760, 8192 to 8202, 8239, 8287
  and 12288; the line and paragraph separators 8232 and 8233; and the byte order mark
  65279. All are single code units.
\<close>

definition isWhiteSpace :: "nat \<Rightarrow> bool" where
  "isWhiteSpace c =
     (c \<in> set [9, 10, 11, 12, 13, 32, 160, 5760, 8232, 8233, 8239, 8287, 12288, 65279]
      \<or> (8192 \<le> c \<and> c \<le> 8202))"

definition trim :: "jsstring \<Rightarrow> jsstring" where
  "trim s = rev (dropWhile isWhiteSpace (rev (dropWhile isWhiteSpace s)))"


definition lowerUnit :: "nat \<Rightarrow> nat" where
  "lowerUnit c =
     (if 65 \<le> c \<and> c \<le> 90 then c + 32
      else if 192 \<le> c \<and> c \<le> 222 \<and> c \<noteq> 215 then c + 32
      else if 1024 \<le> c \<and> c \<le> 1039 then c + 80
      else if 1040 \<le> c \<and> c \<le> 1071 then c + 32
      else c)"

definition toLowerCaseBasic :: "jsstring \<Rightarrow> jsstring" where
  "toLowerCaseBasic s = map lowerUnit s"

fun startsWith :: "jsstring \<Rightarrow> jsstring \<Rightarrow> bool" where
  "startsWith s [] = True"
| "startsWith [] (c # q) = False"
| "startsWith (a # s) (c # q) = (a = c \<and> startsWith s q)"

text \<open>\<open>s.includes(q)\<close>: \<open>q\<close> occurs in \<open>s\<close> as a contiguous run of code units.\<close>

fun includes_js :: "jsstring \<Rightarrow> jsstring \<Rightarrow> bool" where
  "includes_js [] q = (q = [])"
| "includes_js (a # s) q = (startsWith (a # s) q \<or> includes_js s q)"

text \<open>\<open>x || ''\<close> for an optional string: \<open>undefined\<close>, \<open>null\<close> and the empty string
  all give the empty string.\<close>

definition orEmpty :: "jsstring option \<Rightarrow> jsstring" where
  "orEmpty x = (case x of None \<Rightarrow> [] | Some s \<Rightarrow> s)"

text \<open>Truthiness of an optional string, as \<open>Boolean(x)\<close>, \<open>!x\<close> and \<open>x || y\<close> see it.\<close>

definition truthy :: "jsstring option \<Rightarrow> bool" where
  "truthy x = (case x of None \<Rightarrow> False | Some s \<Rightarrow> s \<noteq> [])"

text \<open>\<open>xs.filter(Boolean).join(' ')\<close> on a list of optional strings.\<close>

fun joinSpace :: "jsstring list \<Rightarrow> jsstring" where
  "joinSpace [] = []"
| "joinSpace [x] = x"
| "joinSpace (x # y # ys) = x @ js '' '' @ joinSpace (y # ys)"

definition filterBooleanJoin :: "jsstring option list \<Rightarrow> jsstring" where
  "filterBooleanJoin xs = joinSpace (map orEmpty (filter truthy xs))"

text \<open>\<open>String(n)\<close> for a non-negative integer: its decimal digits, the digit \<open>d\<close> being
  the code unit \<open>48 + d\<close>.\<close>

fun String_js :: "nat \<Rightarrow> jsstring" where
  "String_js n =
     (if n < 10 then [48 + n]
      else String_js (n div 10) @ [48 + n mod 10])"

declare String_js.simps [simp del]

section \<open>Orders\<close>

record order_user =
  ou_id :: nat
  ou_firstName :: jsstring
  ou_lastName :: "jsstring option"
  ou_username :: "jsstring option"
  ou_phone :: "jsstring option"
  ou_telegramId :: jsstring

record order_item =
  oi_id :: nat
  oi_name :: jsstring
  oi_price :: int
  oi_quantity :: int

text \<open>
  The fields of \<open>Order\<close> that the handlers and the filter read or write. The remaining
  display-only fields (address, delivery date, card text, ...) live in the extension
  slot of the record.
\<close>

record order =
  o_id :: nat
  o_user :: order_user
  o_items :: "order_item list"
  o_status :: jsstring
  o_deliveryType :: jsstring
  o_recipientPhone :: "jsstring option"
  o_totalPrice :: int
  o_paymentStatus :: jsstring
  o_createdAt :: jsstring

text \<open>
  What a lookup \<open>nextStatuses[key]\<close> can give. The object literal has six keys of its
  own, each with an array; for any other key the lookup goes on to \<open>Object.prototype\<close>,
  whose members every object inherits: functions, each with its \<open>length\<close>, and the
  accessor \<open>__proto__\<close>, which gives an object. A key found nowhere gives \<open>undefined\<close>.
\<close>

datatype js_value =
    Undefined
  | ArrayValue "jsstring list"
  | FunctionValue nat  \<comment> \<open>a function and its \<open>length\<close>\<close>
  | ObjectValue  \<comment> \<open>an object with no \<open>length\<close>\<close>

text \<open>The members of \<open>Object.prototype\<close> (ECMAScript, with its Annex B).\<close>

definition objectPrototype :: "jsstring \<Rightarrow> js_value" where
  "objectPrototype key =
     (case map_of
             [(js ''constructor'', FunctionValue 1),
              (js ''hasOwnProperty'', FunctionValue 1),
              (js ''isPrototypeOf'', FunctionValue 1),
              (js ''propertyIsEnumerable'', FunctionValue 1),
              (js ''toLocaleString'', FunctionValue 0),
              (js ''toString'', FunctionValue 0),
              (js ''valueOf'', FunctionValue 0),
              (js ''__proto__'', ObjectValue),
              (js ''__defineGetter__'', FunctionValue 2),
              (js ''__defineSetter__'', FunctionValue 2),
              (js ''__lookupGetter__'', FunctionValue 1),
              (js ''__lookupSetter__'', FunctionValue 1)] key of
        None \<Rightarrow> Undefined
      | Some v \<Rightarrow> v)"

text \<open>The object literal \<open>nextStatuses\<close>, as written.\<close>

definition nextStatuses_literal :: "(jsstring \<times> jsstring list) list" where
  "nextStatuses_literal =
     [(js ''new'', [js ''confirmed'', js ''canceled'']),
      (js ''confirmed'', [js ''preparing'', js ''canceled'']),
      (js ''preparing'', [js ''delivering'', js ''canceled'']),
      (js ''delivering'', [js ''completed'', js ''canceled'']),
      (js ''completed'', []),
      (js ''canceled'', [])]"

text \<open>The lookup \<open>nextStatuses[key]\<close>.\<close>

definition nextStatuses :: "jsstring \<Rightarrow> js_value" where
  "nextStatuses key =
     (case map_of nextStatuses_literal key of
        Some xs \<Rightarrow> ArrayValue xs
      | None \<Rightarrow> objectPrototype key)"

text \<open>\<open>v?.length\<close>: \<open>None\<close> is \<open>undefined\<close>.\<close>

fun lengthOf :: "js_value \<Rightarrow> nat option" where
  "lengthOf Undefined = None"
| "lengthOf (ArrayValue xs) = Some (length xs)"
| "lengthOf (FunctionValue n) = Some n"
| "lengthOf ObjectValue = None"

text \<open>The render guard \<open>nextStatuses[status]?.length > 0\<close>; \<open>undefined > 0\<close> is false.\<close>

definition hasNextStatuses :: "jsstring \<Rightarrow> bool" where
  "hasNextStatuses status =
     (case lengthOf (nextStatuses status) of None \<Rightarrow> False | Some n \<Rightarrow> n > 0)"

text \<open>
  What rendering a control comes to: it throws, it renders nothing, or it renders
  something. \<open>nextStatuses[status].map(...)\<close> throws a TypeError when the value looked
  up is not an array, since it then has no \<open>map\<close>.
\<close>

datatype 'a rendered = Throws | NotRendered | Rendered 'a

text \<open>
  The transition select of a table row: when rendered, the values of its options, the
  placeholder option \<open>""\<close> first.
\<close>

definition rowSelectOptions :: "jsstring \<Rightarrow> jsstring list rendered" where
  "rowSelectOptions status =
     (if hasNextStatuses status
      then (case nextStatuses status of ArrayValue xs \<Rightarrow> Rendered ([] # xs) | _ \<Rightarrow> Throws)
      else NotRendered)"

text \<open>The status buttons of the detail modal: when rendered, one per entry.\<close>

definition modalButtons :: "jsstring \<Rightarrow> jsstring list rendered" where
  "modalButtons status =
     (if hasNextStatuses status
      then (case nextStatuses status of ArrayValue xs \<Rightarrow> Rendered xs | _ \<Rightarrow> Throws)
      else NotRendered)"

subsection \<open>Requests and responses\<close>

text \<open>
  What the views read of a rejected request: \<open>err.response?.data?.error\<close> and
  \<open>err.response?.data?.message\<close>, each \<open>None\<close> when any link of the chain is missing.
\<close>

record api_error =
  err_error :: "jsstring option"
  err_message :: "jsstring option"

datatype 'a response = Resolved 'a | Rejected api_error

text \<open>\<open>field || fallback\<close> on a field of the error body.\<close>

definition orElse :: "jsstring option \<Rightarrow> jsstring \<Rightarrow> jsstring" where
  "orElse x fallback = (if truthy x then orEmpty x else fallback)"

text \<open>The requests the Orders view sends through the API client.\<close>

datatype orders_request =
    GetOrders "jsstring option"  \<comment> \<open>GET /orders, with the params \<open>{}\<close> or \<open>{status}\<close>\<close>
  | GetOrder nat  \<comment> \<open>GET /orders/id\<close>
  | PutOrderStatus nat jsstring  \<comment> \<open>PUT /orders/id/status with the body \<open>{status}\<close>\<close>

text \<open>The message "could not load the orders" and the prefix of "could not update the
  status of order #id", as the code units of the Russian texts of the source.\<close>

definition msg_orders_load_failed :: jsstring where
  "msg_orders_load_failed =
     [1053, 1077, 32, 1091, 1076, 1072, 1083, 1086, 1089, 1100, 32, 1079, 1072, 1075,
      1088, 1091, 1079, 1080, 1090, 1100, 32, 1079, 1072, 1082, 1072, 1079, 1099]"

definition msg_status_update_failed :: jsstring where
  "msg_status_update_failed =
     [1053, 1077, 32, 1091, 1076, 1072, 1083, 1086, 1089, 1100, 32, 1086, 1073, 1085,
      1086, 1074, 1080, 1090, 1100, 32, 1089, 1090, 1072, 1090, 1091, 1089, 32, 1079,
      1072, 1082, 1072, 1079, 1072, 32, 35]"

subsection \<open>The state of the Orders view and its handlers\<close>

record orders_state =
  ord_orders :: "order list"
  ord_loading :: bool
  ord_activeTab :: jsstring
  ord_updatingId :: "nat option"
  ord_error :: jsstring
  ord_search :: jsstring
  ord_selectedOrder :: "order option"

text \<open>
  A handler returns the state after all its state updates, and the requests it sent, in
  order. The response of each request is an argument: the server is not part of the
  program.
\<close>

definition fetchOrders ::
  "jsstring \<Rightarrow> order list response \<Rightarrow> orders_state \<Rightarrow> orders_state \<times> orders_request list" where
  "fetchOrders status res st =
     (let st1 = st\<lparr>ord_loading := True, ord_error := []\<rparr>;
          params = (if status = js ''all'' then None else Some status);
          st2 = (case res of
                   Resolved data \<Rightarrow> st1\<lparr>ord_orders := data\<rparr>
                 | Rejected e \<Rightarrow> st1\<lparr>ord_error := msg_orders_load_failed\<rparr>)
      in (st2\<lparr>ord_loading := False\<rparr>, [GetOrders params]))"

text \<open>The responses \<open>handleStatusChange\<close> may wait for: of the PUT, of the list re-fetch
  and of the re-fetch of the order open in the modal.\<close>

record status_change_env =
  env_put :: "unit response"
  env_orders :: "order list response"
  env_detail :: "order response"

text \<open>
  \<open>fetchOrders\<close> is started and not awaited; it writes \<open>loading\<close>, \<open>error\<close> and
  \<open>orders\<close>, the rest of the handler writes \<open>selectedOrder\<close> and \<open>updatingId\<close>, so
  the state after both have finished does not depend on which response comes first.
\<close>

definition handleStatusChange ::
  "nat \<Rightarrow> jsstring \<Rightarrow> status_change_env \<Rightarrow> orders_state \<Rightarrow> orders_state \<times> orders_request list" where
  "handleStatusChange orderId newStatus env st =
     (let st1 = st\<lparr>ord_updatingId := Some orderId, ord_error := []\<rparr>;
          put = PutOrderStatus orderId newStatus
      in case env_put env of
           Rejected err \<Rightarrow>
             (st1\<lparr>ord_error := orElse (err_error err) (msg_status_update_failed @ String_js orderId),
                  ord_updatingId := None\<rparr>,
              [put])
         | Resolved u \<Rightarrow>
             (let (st2, reqs) = fetchOrders (ord_activeTab st1) (env_orders env) st1
              in if map_option o_id (ord_selectedOrder st) = Some orderId
                 then (case env_detail env of
                         Resolved data \<Rightarrow>
                           (st2\<lparr>ord_selectedOrder := Some data, ord_updatingId := None\<rparr>,
                            put # reqs @ [GetOrder orderId])
                       | Rejected e \<Rightarrow>
                           (st2\<lparr>ord_selectedOrder :=
                                  map_option (\<lambda>prev. prev\<lparr>o_status := newStatus\<rparr>)
                                    (ord_selectedOrder st2),
                                ord_updatingId := None\<rparr>,
                            put # reqs @ [GetOrder orderId]))
                 else (st2\<lparr>ord_updatingId := None\<rparr>, put # reqs)))"

subsection \<open>The search filter of the Orders view\<close>

definition orderMatches :: "(jsstring \<Rightarrow> jsstring) \<Rightarrow> jsstring \<Rightarrow> order \<Rightarrow> bool" where
  "orderMatches toLowerCase search order =
     (if trim search = [] then True
      else
        (let q = toLowerCase search;
             name = toLowerCase
                      (filterBooleanJoin [Some (ou_firstName (o_user order)), ou_lastName (o_user order)])
         in includes_js (js ''#'' @ String_js (o_id order)) q
            \<or> includes_js (String_js (o_id order)) q
            \<or> includes_js name q
            \<or> includes_js (orEmpty (ou_phone (o_user order))) q
            \<or> includes_js (orEmpty (o_recipientPhone order)) q))"

definition filteredOrders :: "(jsstring \<Rightarrow> jsstring) \<Rightarrow> orders_state \<Rightarrow> order list" where
  "filteredOrders toLowerCase st =
     filter (orderMatches toLowerCase (ord_search st)) (ord_orders st)"

subsection \<open>The controls of the Orders view\<close>

text \<open>
  What the user can do in the view. A change of a row's select carries the row's order
  and the value of the option chosen; a click in the modal carries the value of the
  button.
\<close>

datatype orders_event =
    SetSearch jsstring
  | SetActiveTab jsstring
  | OpenOrder order
  | CloseModal
  | RowSelectChange order jsstring
  | ModalButtonClick jsstring

text \<open>
  Rendering the view throws when rendering one of its status controls throws: the select
  of a row of the table, which is rendered when the view is not loading, or the buttons
  of the modal. Nothing catches that, so the view is then gone and no control of it can
  be used.
\<close>

definition ordersViewThrows :: "(jsstring \<Rightarrow> jsstring) \<Rightarrow> orders_state \<Rightarrow> bool" where
  "ordersViewThrows toLowerCase st =
     ((\<not> ord_loading st
       \<and> list_ex (\<lambda>order. rowSelectOptions (o_status order) = Throws)
            (filteredOrders toLowerCase st))
      \<or> (case ord_selectedOrder st of
            None \<Rightarrow> False
          | Some sel \<Rightarrow> modalButtons (o_status sel) = Throws))"

text \<open>
  The browser's part: a change event comes only from a select that is rendered (the view
  rendered, the row is in the table, the guard holds) and enabled, with the value of one
  of its options; a click only from a button that is rendered and enabled.
\<close>

definition rowRendered :: "(jsstring \<Rightarrow> jsstring) \<Rightarrow> orders_state \<Rightarrow> order \<Rightarrow> bool" where
  "rowRendered toLowerCase st order =
     (\<not> ordersViewThrows toLowerCase st
      \<and> \<not> ord_loading st \<and> order \<in> set (filteredOrders toLowerCase st))"

definition rowSelectFires ::
  "(jsstring \<Rightarrow> jsstring) \<Rightarrow> orders_state \<Rightarrow> order \<Rightarrow> jsstring \<Rightarrow> bool" where
  "rowSelectFires toLowerCase st order v =
     (rowRendered toLowerCase st order
      \<and> ord_updatingId st \<noteq> Some (o_id order)
      \<and> (case rowSelectOptions (o_status order) of
            Rendered opts \<Rightarrow> v \<in> set opts
          | _ \<Rightarrow> False))"

definition modalButtonFires :: "(jsstring \<Rightarrow> jsstring) \<Rightarrow> orders_state \<Rightarrow> jsstring \<Rightarrow> bool" where
  "modalButtonFires toLowerCase st s =
     (\<not> ordersViewThrows toLowerCase st
      \<and> (case ord_selectedOrder st of
            None \<Rightarrow> False
          | Some sel \<Rightarrow>
              ord_updatingId st \<noteq> Some (o_id sel)
              \<and> (case modalButtons (o_status sel) of
                    Rendered buttons \<Rightarrow> s \<in> set buttons
                  | _ \<Rightarrow> False)))"

text \<open>The \<open>onChange\<close> of the row select: the call of \<open>handleStatusChange\<close> it makes, if
  any. The \<open>onClick\<close> of a modal button always makes the call.\<close>

definition rowSelectOnChange :: "order \<Rightarrow> jsstring \<Rightarrow> (nat \<times> jsstring) option" where
  "rowSelectOnChange order v = (if v \<noteq> [] then Some (o_id order, v) else None)"

definition modalButtonOnClick :: "order \<Rightarrow> jsstring \<Rightarrow> nat \<times> jsstring" where
  "modalButtonOnClick sel s = (o_id sel, s)"

definition ordersEvent ::
  "(jsstring \<Rightarrow> jsstring) \<Rightarrow> orders_event \<Rightarrow> status_change_env \<Rightarrow> orders_state
   \<Rightarrow> orders_state \<times> orders_request list" where
  "ordersEvent toLowerCase ev env st =
     (if ordersViewThrows toLowerCase st then (st, [])
      else
        (case ev of
           SetSearch s \<Rightarrow> (st\<lparr>ord_search := s\<rparr>, [])
         | SetActiveTab tab \<Rightarrow> fetchOrders tab (env_orders env) (st\<lparr>ord_activeTab := tab\<rparr>)
         | OpenOrder order \<Rightarrow>
             (if rowRendered toLowerCase st order
              then (st\<lparr>ord_selectedOrder := Some order\<rparr>, [])
              else (st, []))
         | CloseModal \<Rightarrow> (st\<lparr>ord_selectedOrder := None\<rparr>, [])
         | RowSelectChange order v \<Rightarrow>
             (if rowSelectFires toLowerCase st order v
              then (case rowSelectOnChange order v of
                      None \<Rightarrow> (st, [])
                    | Some (orderId, newStatus) \<Rightarrow> handleStatusChange orderId newStatus env st)
              else (st, []))
         | ModalButtonClick s \<Rightarrow>
             (case ord_selectedOrder st of
                None \<Rightarrow> (st, [])
              | Some sel \<Rightarrow>
                  (if modalButtonFires toLowerCase st s
                   then (case modalButtonOnClick sel s of
                           (orderId, newStatus) \<Rightarrow> handleStatusChange orderId newStatus env st)
                   else (st, [])))))"

text \<open>
  A session of the view: the events in order, each with the responses its requests get.
  The log pairs every request with the state of the view in which it was sent.
\<close>

fun ordersRun ::
  "(jsstring \<Rightarrow> jsstring) \<Rightarrow> orders_state \<Rightarrow> (orders_event \<times> status_change_env) list
   \<Rightarrow> (orders_state \<times> orders_request) list" where
  "ordersRun toLowerCase st [] = []"
| "ordersRun toLowerCase st ((ev, env) # rest) =
     (case ordersEvent toLowerCase ev env st of
        (st', reqs) \<Rightarrow> map (\<lambda>r. (st, r)) reqs @ ordersRun toLowerCase st' rest)"

section \<open>Loyalty\<close>

subsection \<open>Numbers\<close>

text \<open>
  The bonus balance and the adjustment are JavaScript numbers. The model tells the
  integers apart and has one more value, \<open>OtherNumber\<close>, for a number it does not
  determine (\<open>NaN\<close>, an infinity, a number with a fraction, or an integer written in a
  way the model does not read). Sums of integers are exact as long as they stay below
  \<open>2^53\<close> in absolute value. \<open>Number(s)\<close> is read on the decimal integer literals with
  an optional sign and surrounding white space, and on the blank string, which gives 0.
\<close>

datatype jsnum = Num int | OtherNumber






subsection \<open>Data\<close>

record loyalty_user =
  lu_id :: nat
  lu_firstName :: "jsstring option"
  lu_lastName :: "jsstring option"
  lu_username :: "jsstring option"
  lu_phone :: "jsstring option"
  lu_bonusPoints :: jsnum
  lu_telegramId :: jsstring

record history_entry =
  he_id :: nat
  he_amount :: int
  he_type :: jsstring
  he_description :: "jsstring option"
  he_createdAt :: jsstring


text \<open>A response body that is either an array or an object with the array in a field
  (\<open>data.users\<close>, \<open>data.history\<close>), which may be missing.\<close>

datatype 'a listing = ArrayData "'a list" | ObjectData "'a list option"

text \<open>\<open>Array.isArray(data) ? data : data.field || []\<close>\<close>

fun itemsOf :: "'a listing \<Rightarrow> 'a list" where
  "itemsOf (ArrayData xs) = xs"
| "itemsOf (ObjectData None) = []"
| "itemsOf (ObjectData (Some xs)) = xs"


datatype loyalty_request =
    GetLoyalty  \<comment> \<open>GET /loyalty\<close>
  | GetLoyaltyHistory nat  \<comment> \<open>GET /loyalty/id\<close>
  | PostLoyaltyAdjust nat jsnum "jsstring option"
      \<comment> \<open>POST /loyalty/id/adjust with the body \<open>{amount, description}\<close>\<close>


definition msg_history_load_failed :: jsstring where
  "msg_history_load_failed =
     [1054, 1096, 1080, 1073, 1082, 1072, 32, 1079, 1072, 1075, 1088, 1091, 1079, 1082,
      1080, 32, 1080, 1089, 1090, 1086, 1088, 1080, 1080]"


subsection \<open>The state of the Loyalty view and its handlers\<close>

record loyalty_state =
  loy_users :: "loyalty_user list"
  loy_loading :: bool
  loy_error :: jsstring
  loy_search :: jsstring
  loy_selectedUser :: "loyalty_user option"
  loy_history :: "history_entry list"
  loy_historyLoading :: bool
  loy_showAdjust :: bool
  loy_adjustAmount :: jsstring
  loy_adjustDescription :: jsstring
  loy_adjusting :: bool


definition openUserHistory ::
  "loyalty_user \<Rightarrow> history_entry listing response \<Rightarrow> loyalty_state
   \<Rightarrow> loyalty_state \<times> loyalty_request list" where
  "openUserHistory user res st =
     (let st1 = st\<lparr>loy_selectedUser := Some user, loy_historyLoading := True, loy_history := [],
                   loy_showAdjust := False, loy_adjustAmount := [], loy_adjustDescription := []\<rparr>;
          st2 = (case res of
                   Resolved data \<Rightarrow> st1\<lparr>loy_history := itemsOf data\<rparr>
                 | Rejected e \<Rightarrow> st1\<lparr>loy_error := msg_history_load_failed\<rparr>)
      in (st2\<lparr>loy_historyLoading := False\<rparr>, [GetLoyaltyHistory (lu_id user)]))"




subsection \<open>The search filter of the Loyalty view\<close>

definition loyaltyUserMatches ::
  "(jsstring \<Rightarrow> jsstring) \<Rightarrow> jsstring \<Rightarrow> loyalty_user \<Rightarrow> bool" where
  "loyaltyUserMatches toLowerCase search u =
     (if trim search = [] then True
      else
        (let q = toLowerCase search;
             name = toLowerCase (orEmpty (lu_firstName u) @ js '' '' @ orEmpty (lu_lastName u))
         in includes_js name q
            \<or> includes_js (toLowerCase (orEmpty (lu_username u))) q
            \<or> includes_js (orEmpty (lu_phone u)) q))"

definition filteredLoyalty ::
  "(jsstring \<Rightarrow> jsstring) \<Rightarrow> loyalty_state \<Rightarrow> loyalty_user list" where
  "filteredLoyalty toLowerCase st =
     filter (loyaltyUserMatches toLowerCase (loy_search st)) (loy_users st)"

subsection \<open>The loyalty service\<close>





section \<open>Users\<close>

record user_item =
  ui_id :: nat
  ui_telegramId :: "jsstring option"
  ui_maxId :: "jsstring option"
  ui_platform :: "jsstring option"
  ui_firstName :: "jsstring option"
  ui_lastName :: "jsstring option"
  ui_username :: "jsstring option"
  ui_phone :: "jsstring option"
  ui_bonusPoints :: int
  ui_ordersCount :: int
  ui_createdAt :: jsstring

definition userMatches :: "(jsstring \<Rightarrow> jsstring) \<Rightarrow> jsstring \<Rightarrow> user_item \<Rightarrow> bool" where
  "userMatches toLowerCase search u =
     (if trim search = [] then True
      else
        (let q = toLowerCase search;
             name = toLowerCase (orEmpty (ui_firstName u) @ js '' '' @ orEmpty (ui_lastName u))
         in includes_js name q
            \<or> includes_js (toLowerCase (orEmpty (ui_username u))) q
            \<or> includes_js (orEmpty (ui_phone u)) q
            \<or> includes_js (orEmpty (ui_telegramId u)) q
            \<or> includes_js (orEmpty (ui_maxId u)) q))"

definition filteredUsers ::
  "(jsstring \<Rightarrow> jsstring) \<Rightarrow> jsstring \<Rightarrow> user_item list \<Rightarrow> user_item list" where
  "filteredUsers toLowerCase search users = filter (userMatches toLowerCase search) users"

section \<open>Catalog toggles\<close>

subsection \<open>Bouquets\<close>

record bouquet =
  b_id :: nat
  b_name :: jsstring
  b_price :: int
  b_category :: jsstring
  b_inStock :: bool
  b_isHit :: bool
  b_isNew :: bool
  b_images :: "jsstring list"

text \<open>The flag names \<open>'inStock' | 'isHit' | 'isNew'\<close> that \<open>handleToggle\<close> accepts.\<close>

datatype toggle_field = InStock | IsHit | IsNew

text \<open>The object spread \<open>{ ...b, [field]: value }\<close>.\<close>

fun setField :: "toggle_field \<Rightarrow> bool \<Rightarrow> bouquet \<Rightarrow> bouquet" where
  "setField InStock value b = b\<lparr>b_inStock := value\<rparr>"
| "setField IsHit value b = b\<lparr>b_isHit := value\<rparr>"
| "setField IsNew value b = b\<lparr>b_isNew := value\<rparr>"

fun getField :: "toggle_field \<Rightarrow> bouquet \<Rightarrow> bool" where
  "getField InStock b = b_inStock b"
| "getField IsHit b = b_isHit b"
| "getField IsNew b = b_isNew b"

datatype bouquets_request =
    GetBouquets  \<comment> \<open>GET /bouquets\<close>
  | DeleteBouquet nat  \<comment> \<open>DELETE /bouquets/id\<close>
  | PatchBouquetToggle nat toggle_field bool
      \<comment> \<open>PATCH /bouquets/id/toggle with the body \<open>{field, value}\<close>\<close>

record bouquets_state =
  bq_bouquets :: "bouquet list"
  bq_loading :: bool
  bq_search :: jsstring
  bq_categoryFilter :: jsstring

definition handleToggle ::
  "nat \<Rightarrow> toggle_field \<Rightarrow> bool \<Rightarrow> unit response \<Rightarrow> bouquets_state
   \<Rightarrow> bouquets_state \<times> bouquets_request list" where
  "handleToggle ident field value res st =
     (case res of
        Resolved u \<Rightarrow>
          (st\<lparr>bq_bouquets :=
                map (\<lambda>b. if b_id b = ident then setField field value b else b) (bq_bouquets st)\<rparr>,
           [PatchBouquetToggle ident field value])
      | Rejected e \<Rightarrow> (st, [PatchBouquetToggle ident field value]))"

subsection \<open>Constructor items\<close>

text \<open>An item may carry its identifier as \<open>id\<close> or as \<open>_id\<close>; \<open>inStock\<close> is optional.\<close>

record constructor_item =
  ci_id :: "jsstring option"
  ci__id :: "jsstring option"
  ci_name :: jsstring
  ci_price :: int
  ci_inStock :: "bool option"

text \<open>\<open>item.id || item._id\<close>\<close>

definition itemIdOf :: "constructor_item \<Rightarrow> jsstring option" where
  "itemIdOf i = (if truthy (ci_id i) then ci_id i else ci__id i)"

datatype tab_key = Flowers | Greenery | Packaging

record constructor_data =
  flowers :: "constructor_item list"
  greenery :: "constructor_item list"
  packaging :: "constructor_item list"

text \<open>\<open>data[tab]\<close> and \<open>{ ...prev, [tab]: items }\<close>.\<close>

fun tabItems :: "tab_key \<Rightarrow> constructor_data \<Rightarrow> constructor_item list" where
  "tabItems Flowers d = flowers d"
| "tabItems Greenery d = greenery d"
| "tabItems Packaging d = packaging d"

fun setTabItems :: "tab_key \<Rightarrow> constructor_item list \<Rightarrow> constructor_data \<Rightarrow> constructor_data" where
  "setTabItems Flowers items d = d\<lparr>flowers := items\<rparr>"
| "setTabItems Greenery items d = d\<lparr>greenery := items\<rparr>"
| "setTabItems Packaging items d = d\<lparr>packaging := items\<rparr>"

datatype constructor_request =
    GetConstructor  \<comment> \<open>GET /constructor\<close>
  | PutConstructorItem tab_key "jsstring option" bool
      \<comment> \<open>PUT endpoint/itemId of the tab with the body \<open>{inStock}\<close>\<close>

record constructor_state =
  cs_activeTab :: tab_key
  cs_data :: constructor_data
  cs_loading :: bool
  cs_submitting :: bool
  cs_error :: jsstring
  cs_newName :: jsstring
  cs_newPrice :: jsstring

text \<open>\<open>!item.inStock\<close>: a missing flag counts as false.\<close>

definition notInStock :: "constructor_item \<Rightarrow> bool" where
  "notInStock item = (case ci_inStock item of None \<Rightarrow> True | Some v \<Rightarrow> \<not> v)"

definition handleToggleStock ::
  "constructor_item \<Rightarrow> unit response \<Rightarrow> constructor_state
   \<Rightarrow> constructor_state \<times> constructor_request list" where
  "handleToggleStock item res st =
     (let tab = cs_activeTab st;
          itemId = itemIdOf item;
          newVal = notInStock item
      in case res of
           Resolved u \<Rightarrow>
             (st\<lparr>cs_data :=
                   setTabItems tab
                     (map (\<lambda>i. if itemIdOf i = itemId then i\<lparr>ci_inStock := Some newVal\<rparr> else i)
                        (tabItems tab (cs_data st)))
                     (cs_data st)\<rparr>,
              [PutConstructorItem tab itemId newVal])
         | Rejected e \<Rightarrow> (st, [PutConstructorItem tab itemId newVal]))"

section \<open>The application shell\<close>

definition tokenKey :: jsstring where
  "tokenKey = js ''rosa_admin_token''"

datatype app_request = GetAuthMe  \<comment> \<open>GET /auth/me\<close>

text \<open>
  The effect that \<open>App\<close> runs once when it mounts. Local storage is a map from keys to
  strings; the result is the storage, the flag \<open>isAuth\<close> (\<open>None\<close> is the \<open>null\<close> it
  starts with) and the requests sent.
\<close>

definition appMount ::
  "unit response \<Rightarrow> (jsstring \<rightharpoonup> jsstring)
   \<Rightarrow> ((jsstring \<rightharpoonup> jsstring) \<times> bool option) \<times> app_request list" where
  "appMount res storage =
     (if \<not> truthy (storage tokenKey) then ((storage, Some False), [])
      else (case res of
              Resolved u \<Rightarrow> ((storage, Some True), [GetAuthMe])
            | Rejected e \<Rightarrow> ((storage(tokenKey := None), Some False), [GetAuthMe])))"

datatype screen =
    Spinner
  | LoginScreen
  | NavigateTo jsstring
  | DashboardScreen
  | BouquetsScreen
  | BouquetFormScreen
  | UsersScreen
  | OrdersScreen
  | LoyaltyScreen
  | AnalyticsScreen
  | SettingsScreen
  | BroadcastScreen

text \<open>The route \<open>/bouquets/:id\<close>: one more segment, not empty, after \<open>/bouquets/\<close>.\<close>

definition isBouquetIdPath :: "jsstring \<Rightarrow> bool" where
  "isBouquetIdPath path =
     (startsWith path (js ''/bouquets/'')
      \<and> drop 10 path \<noteq> [] \<and> 47 \<notin> set (drop 10 path))"

text \<open>What \<open>App\<close> renders for the flag and the current path.\<close>

definition render :: "bool option \<Rightarrow> jsstring \<Rightarrow> screen" where
  "render isAuth path =
     (case isAuth of
        None \<Rightarrow> Spinner
      | Some False \<Rightarrow> (if path = js ''/login'' then LoginScreen else NavigateTo (js ''/login''))
      | Some True \<Rightarrow>
          (if path = js ''/'' then DashboardScreen
           else if path = js ''/bouquets'' then BouquetsScreen
           else if path = js ''/bouquets/new'' then BouquetFormScreen
           else if isBouquetIdPath path then BouquetFormScreen
           else if path = js ''/users'' then UsersScreen
           else if path = js ''/orders'' then OrdersScreen
           else if path = js ''/loyalty'' then LoyaltyScreen
           else if path = js ''/analytics'' then AnalyticsScreen
           else if path = js ''/settings'' then SettingsScreen
           else if path = js ''/broadcast'' then BroadcastScreen
           else NavigateTo (js ''/'')))"

text \<open>The screen on display once a \<open>Navigate\<close> element has changed the path.\<close>

definition screenShown :: "bool option \<Rightarrow> jsstring \<Rightarrow> screen" where
  "screenShown isAuth path =
     (case render isAuth path of NavigateTo target \<Rightarrow> render isAuth target | s \<Rightarrow> s)"

section \<open>Broadcast\<close>

record broadcast_result =
  br_sent :: int
  br_failed :: int
  br_total :: int

record broadcast_state =
  bc_message :: jsstring
  bc_sending :: bool
  bc_result :: "broadcast_result option"
  bc_error :: jsstring

datatype broadcast_request = PostBroadcast jsstring  \<comment> \<open>POST /broadcast with the body \<open>{message}\<close>\<close>

text \<open>"Error sending the broadcast", as the code units of the Russian text.\<close>

definition msg_broadcast_failed :: jsstring where
  "msg_broadcast_failed =
     [1054, 1096, 1080, 1073, 1082, 1072, 32, 1086, 1090, 1087, 1088, 1072, 1074, 1082,
      1080, 32, 1088, 1072, 1089, 1089, 1099, 1083, 1082, 1080]"

text \<open>
  \<open>handleSend\<close> up to its \<open>await\<close>: the state while the request is in flight and the
  request sent, if any. \<open>confirmed\<close> is the answer to \<open>window.confirm\<close>.
\<close>

definition handleSendStart ::
  "bool \<Rightarrow> broadcast_state \<Rightarrow> broadcast_state \<times> broadcast_request list" where
  "handleSendStart confirmed st =
     (if trim (bc_message st) = [] then (st, [])
      else if \<not> confirmed then (st, [])
      else (st\<lparr>bc_sending := True, bc_error := [], bc_result := None\<rparr>,
            [PostBroadcast (trim (bc_message st))]))"

text \<open>\<open>handleSend\<close> from the response on.\<close>

definition handleSendSettle ::
  "broadcast_result response \<Rightarrow> broadcast_state \<Rightarrow> broadcast_state" where
  "handleSendSettle res st =
     (case res of
        Resolved data \<Rightarrow> st\<lparr>bc_result := Some data\<rparr>
      | Rejected err \<Rightarrow> st\<lparr>bc_error := orElse (err_error err) msg_broadcast_failed\<rparr>)
     \<lparr>bc_sending := False\<rparr>"

definition handleSend ::
  "bool \<Rightarrow> broadcast_result response \<Rightarrow> broadcast_state
   \<Rightarrow> broadcast_state \<times> broadcast_request list" where
  "handleSend confirmed res st =
     (case handleSendStart confirmed st of
        (st1, []) \<Rightarrow> (st1, [])
      | (st1, req # reqs) \<Rightarrow> (handleSendSettle res st1, req # reqs))"

text \<open>The \<open>disabled\<close> attribute of the send button.\<close>

definition sendDisabled :: "broadcast_state \<Rightarrow> bool" where
  "sendDisabled st = (bc_sending st \<or> trim (bc_message st) = [])"

section \<open>The search as the specification words it\<close>


section \<open>Sample data\<close>

definition sample_user :: order_user where
  "sample_user = \<lparr>ou_id = 3, ou_firstName = js ''Anna'', ou_lastName = Some (js ''Petrova''),
     ou_username = Some (js ''bob''), ou_phone = Some (js ''+79001234567''), ou_telegramId = js ''1001''\<rparr>"

definition sample_order :: order where
  "sample_order = \<lparr>o_id = 7, o_user = sample_user, o_items = [], o_status = js ''new'',
     o_deliveryType = js ''pickup'', o_recipientPhone = None, o_totalPrice = 2500,
     o_paymentStatus = js ''paid'', o_createdAt = js ''2024-03-08''\<rparr>"

definition sample_orders_state :: orders_state where
  "sample_orders_state = \<lparr>ord_orders = [sample_order], ord_loading = False,
     ord_activeTab = js ''all'', ord_updatingId = None, ord_error = [], ord_search = [],
     ord_selectedOrder = Some sample_order\<rparr>"

definition no_body :: api_error where
  "no_body = \<lparr>err_error = None, err_message = None\<rparr>"

definition env_all_resolved :: status_change_env where
  "env_all_resolved = \<lparr>env_put = Resolved (),
     env_orders = Resolved [sample_order\<lparr>o_status := js ''confirmed''\<rparr>],
     env_detail = Resolved (sample_order\<lparr>o_status := js ''confirmed''\<rparr>)\<rparr>"

definition env_put_rejected_empty :: status_change_env where
  "env_put_rejected_empty =
     \<lparr>env_put = Rejected \<lparr>err_error = Some [], err_message = None\<rparr>,
      env_orders = Rejected no_body, env_detail = Rejected no_body\<rparr>"

definition env_put_rejected_text :: status_change_env where
  "env_put_rejected_text =
     \<lparr>env_put = Rejected \<lparr>err_error = Some (js ''Invalid transition''), err_message = None\<rparr>,
      env_orders = Rejected no_body, env_detail = Rejected no_body\<rparr>"

definition env_refetch_rejected :: status_change_env where
  "env_refetch_rejected = \<lparr>env_put = Resolved (),
     env_orders = Rejected no_body, env_detail = Rejected no_body\<rparr>"

definition sample_loyalty_user :: loyalty_user where
  "sample_loyalty_user = \<lparr>lu_id = 3, lu_firstName = Some (js ''Anna''), lu_lastName = Some (js ''Petrova''),
     lu_username = Some (js ''Anna_P''), lu_phone = Some (js ''8-800-FLOWERS''), lu_bonusPoints = Num 50,
     lu_telegramId = js ''1001''\<rparr>"

text \<open>A user of the Users view whose name is in Cyrillic letters: Anna Petrova, with the
  capitals 1040 and 1055.\<close>

definition sample_user_item :: user_item where
  "sample_user_item = \<lparr>ui_id = 3, ui_telegramId = Some (js ''1001''), ui_maxId = None,
     ui_platform = Some (js ''telegram''),
     ui_firstName = Some [1040, 1085, 1085, 1072],
     ui_lastName = Some [1055, 1077, 1090, 1088, 1086, 1074, 1072],
     ui_username = Some (js ''Anna_P''), ui_phone = Some (js ''+79001234567''), ui_bonusPoints = 50,
     ui_ordersCount = 2, ui_createdAt = js ''2024-03-08''\<rparr>"

definition sample_entry :: history_entry where
  "sample_entry = \<lparr>he_id = 11, he_amount = 50, he_type = js ''earned'',
     he_description = Some (js ''Order 7''), he_createdAt = js ''2024-03-08''\<rparr>"



definition sample_loyalty_state :: loyalty_state where
  "sample_loyalty_state = \<lparr>loy_users = [sample_loyalty_user], loy_loading = False,
     loy_error = [], loy_search = [], loy_selectedUser = Some sample_loyalty_user,
     loy_history = [sample_entry], loy_historyLoading = False, loy_showAdjust = True,
     loy_adjustAmount = js ''100'', loy_adjustDescription = js ''gift'', loy_adjusting = False\<rparr>"

definition sample_bouquets_state :: bouquets_state where
  "sample_bouquets_state =
     \<lparr>bq_bouquets =
        [\<lparr>b_id = 4, b_name = js ''Spring'', b_price = 1900, b_category = js ''tulips'', b_inStock = True,
           b_isHit = False, b_isNew = True, b_images = []\<rparr>,
         \<lparr>b_id = 5, b_name = js ''Classic'', b_price = 3500, b_category = js ''roses'', b_inStock = True,
           b_isHit = True, b_isNew = False, b_images = [js ''/img/5.jpg'']\<rparr>],
      bq_loading = False, bq_search = [], bq_categoryFilter = js ''all''\<rparr>"

definition sample_item :: constructor_item where
  "sample_item = \<lparr>ci_id = Some (js ''f2''), ci__id = None, ci_name = js ''Peony'', ci_price = 300,
     ci_inStock = Some True\<rparr>"

definition sample_constructor_state :: constructor_state where
  "sample_constructor_state =
     \<lparr>cs_activeTab = Flowers,
      cs_data = \<lparr>flowers = [\<lparr>ci_id = Some (js ''f1''), ci__id = None, ci_name = js ''Rose'', ci_price = 150,
                              ci_inStock = None\<rparr>, sample_item],
                 greenery = [\<lparr>ci_id = Some (js ''f2''), ci__id = None, ci_name = js ''Fern'',
                               ci_price = 80, ci_inStock = Some True\<rparr>],
                 packaging = []\<rparr>,
      cs_loading = False, cs_submitting = False, cs_error = [], cs_newName = [],
      cs_newPrice = []\<rparr>"

definition sample_storage :: "jsstring \<rightharpoonup> jsstring" where
  "sample_storage = [tokenKey \<mapsto> js ''eyJhbGciOi'', js ''theme'' \<mapsto> js ''light'']"

text \<open>A message of a no-break space, a space and an en space, and a message with a
  no-break space before its text and a space and an ideographic space after it.\<close>

definition sample_broadcast_blank :: broadcast_state where
  "sample_broadcast_blank = \<lparr>bc_message = [160, 32, 8195], bc_sending = False, bc_result = None,
     bc_error = []\<rparr>"

definition sample_broadcast_state :: broadcast_state where
  "sample_broadcast_state =
     \<lparr>bc_message = [160] @ js ''Sale on Friday'' @ [32, 12288], bc_sending = False,
     bc_result = None, bc_error = []\<rparr>"

section \<open>Facts about strings\<close>

lemma js_eq_iff [simp]: "js a = js b \<longleftrightarrow> a = b"
proof -
  have "inj (of_char :: char \<Rightarrow> nat)" by (rule inj_of_char)
  then have "inj (map (of_char :: char \<Rightarrow> nat))" by simp
  then show ?thesis unfolding js_def by (simp add: inj_eq)
qed

lemma js_Nil_iff [simp]: "js a = [] \<longleftrightarrow> a = []" "[] = js a \<longleftrightarrow> a = []"
  by (auto simp: js_def)

lemma dropWhile_Nil_iff: "dropWhile P xs = [] \<longleftrightarrow> (\<forall>x\<in>set xs. P x)"
  by (induction xs) auto

text \<open>\<open>!s.trim()\<close> holds exactly of the strings that are empty or all white space.\<close>

lemma trim_Nil_iff: "trim s = [] \<longleftrightarrow> (\<forall>c\<in>set s. isWhiteSpace c)"
proof
  assume "trim s = []"
  then have all: "\<forall>c\<in>set (dropWhile isWhiteSpace s). isWhiteSpace c"
    by (simp add: trim_def dropWhile_Nil_iff)
  have "dropWhile isWhiteSpace s = []"
  proof (rule ccontr)
    assume ne: "dropWhile isWhiteSpace s \<noteq> []"
    then have "\<not> isWhiteSpace (hd (dropWhile isWhiteSpace s))" by (rule hd_dropWhile)
    moreover from ne have "hd (dropWhile isWhiteSpace s) \<in> set (dropWhile isWhiteSpace s)"
      by (rule hd_in_set)
    ultimately show False using all by blast
  qed
  then show "\<forall>c\<in>set s. isWhiteSpace c" by (simp add: dropWhile_Nil_iff)
next
  assume "\<forall>c\<in>set s. isWhiteSpace c"
  then have "dropWhile isWhiteSpace s = []" by (simp add: dropWhile_Nil_iff)
  then show "trim s = []" by (simp only: trim_def rev.simps dropWhile.simps)
qed

lemma String_js_7: "String_js 7 = js ''7''"
  by code_simp

section \<open>The order status table\<close>

lemma nextStatuses_known:
  "nextStatuses (js ''new'') = ArrayValue [js ''confirmed'', js ''canceled'']"
  "nextStatuses (js ''confirmed'') = ArrayValue [js ''preparing'', js ''canceled'']"
  "nextStatuses (js ''preparing'') = ArrayValue [js ''delivering'', js ''canceled'']"
  "nextStatuses (js ''delivering'') = ArrayValue [js ''completed'', js ''canceled'']"
  "nextStatuses (js ''completed'') = ArrayValue []"
  "nextStatuses (js ''canceled'') = ArrayValue []"
  by (simp_all add: nextStatuses_def nextStatuses_literal_def)

lemma nextStatuses_inherited:
  "s \<notin> {js ''new'', js ''confirmed'', js ''preparing'', js ''delivering'', js ''completed'',
      js ''canceled''}
   \<Longrightarrow> nextStatuses s = objectPrototype s"
  by (simp add: nextStatuses_def nextStatuses_literal_def)

lemma hasNextStatuses_known:
  "hasNextStatuses (js ''new'')" "hasNextStatuses (js ''confirmed'')"
  "hasNextStatuses (js ''preparing'')" "hasNextStatuses (js ''delivering'')"
  "\<not> hasNextStatuses (js ''completed'')" "\<not> hasNextStatuses (js ''canceled'')"
  by (simp_all add: hasNextStatuses_def nextStatuses_known)

lemma controls_of_array:
  assumes "nextStatuses s = ArrayValue xs"
  shows "hasNextStatuses s \<longleftrightarrow> xs \<noteq> []"
    and "rowSelectOptions s = (if xs \<noteq> [] then Rendered ([] # xs) else NotRendered)"
    and "modalButtons s = (if xs \<noteq> [] then Rendered xs else NotRendered)"
  using assms by (simp_all add: hasNextStatuses_def rowSelectOptions_def modalButtons_def)

lemma controls_of_undefined:
  assumes "nextStatuses s = Undefined"
  shows "\<not> hasNextStatuses s" and "rowSelectOptions s = NotRendered"
    and "modalButtons s = NotRendered"
  using assms by (simp_all add: hasNextStatuses_def rowSelectOptions_def modalButtons_def)

text \<open>
  Claim C1, as amended. The lookup in the status table is a total function of the status
  string. It gives the array of confirmed and canceled for new, of preparing and canceled
  for confirmed, of delivering and canceled for preparing, of completed and canceled for
  delivering, and the empty array for completed and canceled. For a status that is none
  of the six and not the name of a member that objects inherit, it gives \<open>undefined\<close>.
  For such a status, as for the two terminal statuses, neither the row select nor any
  modal button is rendered; for the other four the select offers the placeholder and the
  listed statuses, and the modal one button for each listed status.
\<close>

theorem nextStatuses_table:
  "nextStatuses (js ''new'') = ArrayValue [js ''confirmed'', js ''canceled'']
   \<and> nextStatuses (js ''confirmed'') = ArrayValue [js ''preparing'', js ''canceled'']
   \<and> nextStatuses (js ''preparing'') = ArrayValue [js ''delivering'', js ''canceled'']
   \<and> nextStatuses (js ''delivering'') = ArrayValue [js ''completed'', js ''canceled'']
   \<and> nextStatuses (js ''completed'') = ArrayValue []
   \<and> nextStatuses (js ''canceled'') = ArrayValue []
   \<and> (s \<notin> {js ''new'', js ''confirmed'', js ''preparing'', js ''delivering'', js ''completed'',
            js ''canceled''}
        \<and> objectPrototype s = Undefined
        \<longrightarrow> nextStatuses s = Undefined \<and> \<not> hasNextStatuses s
            \<and> rowSelectOptions s = NotRendered \<and> modalButtons s = NotRendered)
   \<and> (s \<in> {js ''completed'', js ''canceled''}
        \<longrightarrow> \<not> hasNextStatuses s \<and> rowSelectOptions s = NotRendered
            \<and> modalButtons s = NotRendered)
   \<and> (s \<in> {js ''new'', js ''confirmed'', js ''preparing'', js ''delivering''}
        \<longrightarrow> (\<exists>xs. nextStatuses s = ArrayValue xs \<and> hasNextStatuses s
                  \<and> rowSelectOptions s = Rendered ([] # xs) \<and> modalButtons s = Rendered xs))"
proof -
  have unknown: "s \<notin> {js ''new'', js ''confirmed'', js ''preparing'', js ''delivering'',
            js ''completed'', js ''canceled''}
        \<and> objectPrototype s = Undefined
        \<longrightarrow> nextStatuses s = Undefined \<and> \<not> hasNextStatuses s
            \<and> rowSelectOptions s = NotRendered \<and> modalButtons s = NotRendered"
  proof
    assume a: "s \<notin> {js ''new'', js ''confirmed'', js ''preparing'', js ''delivering'',
            js ''completed'', js ''canceled''} \<and> objectPrototype s = Undefined"
    then have "nextStatuses s = objectPrototype s" by (intro nextStatuses_inherited) simp
    with a have u: "nextStatuses s = Undefined" by simp
    with controls_of_undefined [OF u] show "nextStatuses s = Undefined \<and> \<not> hasNextStatuses s
            \<and> rowSelectOptions s = NotRendered \<and> modalButtons s = NotRendered"
      by simp
  qed
  have terminal: "s \<in> {js ''completed'', js ''canceled''}
        \<longrightarrow> \<not> hasNextStatuses s \<and> rowSelectOptions s = NotRendered
            \<and> modalButtons s = NotRendered"
  proof
    assume "s \<in> {js ''completed'', js ''canceled''}"
    then have "nextStatuses s = ArrayValue []" using nextStatuses_known(5,6) by auto
    from controls_of_array [OF this]
    show "\<not> hasNextStatuses s \<and> rowSelectOptions s = NotRendered
            \<and> modalButtons s = NotRendered"
      by simp
  qed
  have live: "s \<in> {js ''new'', js ''confirmed'', js ''preparing'', js ''delivering''}
        \<longrightarrow> (\<exists>xs. nextStatuses s = ArrayValue xs \<and> hasNextStatuses s
                  \<and> rowSelectOptions s = Rendered ([] # xs) \<and> modalButtons s = Rendered xs)"
  proof
    assume "s \<in> {js ''new'', js ''confirmed'', js ''preparing'', js ''delivering''}"
    then obtain xs where xs: "nextStatuses s = ArrayValue xs" "xs \<noteq> []"
      using nextStatuses_known(1-4) by auto
    from controls_of_array [OF xs(1)] xs
    show "\<exists>xs. nextStatuses s = ArrayValue xs \<and> hasNextStatuses s
                  \<and> rowSelectOptions s = Rendered ([] # xs) \<and> modalButtons s = Rendered xs"
      by simp
  qed
  show ?thesis
    by (intro conjI) (rule nextStatuses_known unknown terminal live)+
qed

theorem nextStatuses_table_witness:
  "js ''shipped'' \<notin> {js ''new'', js ''confirmed'', js ''preparing'', js ''delivering'',
      js ''completed'', js ''canceled''}
   \<and> objectPrototype (js ''shipped'') = Undefined
   \<and> nextStatuses (js ''shipped'') = Undefined
   \<and> \<not> hasNextStatuses (js ''shipped'')
   \<and> rowSelectOptions (js ''shipped'') = NotRendered
   \<and> modalButtons (js ''shipped'') = NotRendered
   \<and> rowSelectOptions (js ''completed'') = NotRendered
   \<and> rowSelectOptions (js ''new'') = Rendered ([] # [js ''confirmed'', js ''canceled''])
   \<and> modalButtons (js ''new'') = Rendered [js ''confirmed'', js ''canceled'']"
proof -
  have a: "js ''shipped'' \<notin> {js ''new'', js ''confirmed'', js ''preparing'', js ''delivering'',
      js ''completed'', js ''canceled''}"
    by simp
  have p: "objectPrototype (js ''shipped'') = Undefined"
    by (simp add: objectPrototype_def)
  have b: "js ''completed'' \<in> {js ''completed'', js ''canceled''}"
    "js ''new'' \<in> {js ''new'', js ''confirmed'', js ''preparing'', js ''delivering''}"
    by simp_all
  note shipped = nextStatuses_table [of "js ''shipped''"]
  note completed = nextStatuses_table [of "js ''completed''"]
  note new = nextStatuses_table [of "js ''new''"]
  from shipped a p have 1: "nextStatuses (js ''shipped'') = Undefined"
    "\<not> hasNextStatuses (js ''shipped'')" "rowSelectOptions (js ''shipped'') = NotRendered"
    "modalButtons (js ''shipped'') = NotRendered"
    by simp_all
  from completed b(1) have 2: "rowSelectOptions (js ''completed'') = NotRendered" by simp
  from new b(2) have 3:
    "rowSelectOptions (js ''new'') = Rendered ([] # [js ''confirmed'', js ''canceled''])"
    "modalButtons (js ''new'') = Rendered [js ''confirmed'', js ''canceled'']"
    by auto
  from a p 1 2 3 show ?thesis by simp
qed

text \<open>
  The status shipped has no entry: the lookup gives \<open>undefined\<close>, not an empty array.
  The status constructor finds the function every object inherits under that name,
  whose \<open>length\<close> is 1: the guard holds, and rendering the select or the buttons throws.
\<close>

theorem nextStatuses_table_counterexample:
  "nextStatuses (js ''shipped'') = Undefined
   \<and> nextStatuses (js ''shipped'') \<noteq> ArrayValue []
   \<and> nextStatuses (js ''constructor'') = FunctionValue 1
   \<and> hasNextStatuses (js ''constructor'')
   \<and> rowSelectOptions (js ''constructor'') = Throws
   \<and> modalButtons (js ''constructor'') = Throws"
  by code_simp

section \<open>Status transitions\<close>

lemma objectPrototype_not_array: "objectPrototype s \<noteq> ArrayValue xs"
  by (simp add: objectPrototype_def)

lemma nextStatuses_nonempty: "nextStatuses s = ArrayValue xs \<Longrightarrow> [] \<notin> set xs"
  by (simp add: nextStatuses_def nextStatuses_literal_def objectPrototype_not_array
      split: if_splits) auto

lemma handleStatusChange_puts:
  "PutOrderStatus i t \<in> set (snd (handleStatusChange orderId newStatus env st))
   \<Longrightarrow> i = orderId \<and> t = newStatus"
  by (auto simp: handleStatusChange_def fetchOrders_def Let_def split: response.splits if_splits)

lemma modalButtons_Rendered:
  "modalButtons status = Rendered buttons \<Longrightarrow> nextStatuses status = ArrayValue buttons"
  by (cases "nextStatuses status") (simp_all add: modalButtons_def split: if_splits)

lemma rowSelectOptions_Rendered:
  "rowSelectOptions status = Rendered opts
   \<Longrightarrow> \<exists>xs. nextStatuses status = ArrayValue xs \<and> opts = [] # xs"
  by (cases "nextStatuses status") (simp_all add: rowSelectOptions_def split: if_splits)

lemma rowSelectOptions_in:
  assumes "rowSelectOptions status = Rendered opts" "v \<in> set opts" "v \<noteq> []"
  shows "\<exists>xs. nextStatuses status = ArrayValue xs \<and> v \<in> set xs"
  using rowSelectOptions_Rendered [OF assms(1)] assms(2,3) by auto

text \<open>One event: a PUT it sends is for the order its control shows, and for a status the
  table allows after that order's status.\<close>

lemma ordersEvent_put:
  assumes "PutOrderStatus orderId target \<in> set (snd (ordersEvent toLowerCase ev env st))"
  shows "\<exists>order xs. (rowRendered toLowerCase st order \<or> ord_selectedOrder st = Some order)
           \<and> o_id order = orderId \<and> nextStatuses (o_status order) = ArrayValue xs
           \<and> target \<in> set xs \<and> target \<noteq> []"
proof (cases "ordersViewThrows toLowerCase st")
  case True
  with assms show ?thesis by (simp add: ordersEvent_def)
next
  case False
  show ?thesis
  proof (cases ev)
    case (RowSelectChange order v)
    with assms False have f: "rowSelectFires toLowerCase st order v" and nz: "v \<noteq> []"
      and p: "PutOrderStatus orderId target \<in> set (snd (handleStatusChange (o_id order) v env st))"
      by (auto simp: ordersEvent_def rowSelectOnChange_def split: if_splits)
    from p have e: "orderId = o_id order" "target = v" using handleStatusChange_puts by blast+
    from f have rr: "rowRendered toLowerCase st order" by (simp add: rowSelectFires_def)
    from f obtain opts where "rowSelectOptions (o_status order) = Rendered opts" "v \<in> set opts"
      by (cases "rowSelectOptions (o_status order)") (simp_all add: rowSelectFires_def)
    with nz obtain xs where "nextStatuses (o_status order) = ArrayValue xs" "v \<in> set xs"
      using rowSelectOptions_in by blast
    with e rr nz show ?thesis
      by (intro exI [of _ order] exI [of _ xs]) simp
  next
    case (ModalButtonClick s)
    with assms False obtain sel where sel: "ord_selectedOrder st = Some sel"
      and f: "modalButtonFires toLowerCase st s"
      and p: "PutOrderStatus orderId target \<in> set (snd (handleStatusChange (o_id sel) s env st))"
      by (auto simp: ordersEvent_def modalButtonOnClick_def split: if_splits option.splits)
    from p have e: "orderId = o_id sel" "target = s" using handleStatusChange_puts by blast+
    from f sel obtain buttons where b: "modalButtons (o_status sel) = Rendered buttons"
      "s \<in> set buttons"
      by (cases "modalButtons (o_status sel)") (simp_all add: modalButtonFires_def)
    from modalButtons_Rendered [OF b(1)] have n: "nextStatuses (o_status sel) = ArrayValue buttons" .
    from nextStatuses_nonempty [OF n] b(2) have "s \<noteq> []" by auto
    with e sel n b(2) show ?thesis
      by (intro exI [of _ sel] exI [of _ buttons]) simp
  qed (use assms False in
      \<open>auto simp: ordersEvent_def fetchOrders_def Let_def split: if_splits response.splits\<close>)
qed

text \<open>
  Claim C2. In any session of the Orders view, from any state, every request PUT
  /orders/id/status that the view sends was sent from a state in which an order with that
  id was on display, in a table row or in the modal, and the target of the request is one
  of the statuses the table lists for the status that order was displayed with. The
  placeholder option of the select never leads to a request. This holds whatever the
  platform's \<open>toLowerCase\<close> is.
\<close>

theorem status_requests_guarded:
  "(st', PutOrderStatus orderId target) \<in> set (ordersRun toLowerCase st evs)
   \<Longrightarrow> \<exists>order xs. (rowRendered toLowerCase st' order \<or> ord_selectedOrder st' = Some order)
           \<and> o_id order = orderId \<and> nextStatuses (o_status order) = ArrayValue xs
           \<and> target \<in> set xs \<and> target \<noteq> []"
proof (induction evs arbitrary: st)
  case Nil
  then show ?case by simp
next
  case (Cons a evs)
  obtain ev env where a: "a = (ev, env)" by (cases a)
  obtain st2 reqs where r: "ordersEvent toLowerCase ev env st = (st2, reqs)"
    by (cases "ordersEvent toLowerCase ev env st")
  from Cons.prems a r consider
    (here) "st' = st" "PutOrderStatus orderId target \<in> set reqs"
    | (later) "(st', PutOrderStatus orderId target) \<in> set (ordersRun toLowerCase st2 evs)"
    by auto
  then show ?case
  proof cases
    case here
    then show ?thesis using ordersEvent_put [of orderId target toLowerCase ev env st] r by simp
  next
    case later
    then show ?thesis by (rule Cons.IH)
  qed
qed

theorem status_requests_guarded_witness:
  "(sample_orders_state\<lparr>ord_search := js ''aNNa''\<rparr>, PutOrderStatus 7 (js ''confirmed''))
     \<in> set (ordersRun toLowerCaseBasic sample_orders_state
              [(SetSearch (js ''aNNa''), env_all_resolved),
               (RowSelectChange sample_order [], env_all_resolved),
               (RowSelectChange sample_order (js ''confirmed''), env_all_resolved)])
   \<and> (\<exists>order xs.
         (rowRendered toLowerCaseBasic (sample_orders_state\<lparr>ord_search := js ''aNNa''\<rparr>) order
          \<or> ord_selectedOrder (sample_orders_state\<lparr>ord_search := js ''aNNa''\<rparr>) = Some order)
         \<and> o_id order = 7 \<and> nextStatuses (o_status order) = ArrayValue xs
         \<and> js ''confirmed'' \<in> set xs \<and> js ''confirmed'' \<noteq> [])"
proof -
  have run: "(sample_orders_state\<lparr>ord_search := js ''aNNa''\<rparr>, PutOrderStatus 7 (js ''confirmed''))
     \<in> set (ordersRun toLowerCaseBasic sample_orders_state
              [(SetSearch (js ''aNNa''), env_all_resolved),
               (RowSelectChange sample_order [], env_all_resolved),
               (RowSelectChange sample_order (js ''confirmed''), env_all_resolved)])"
    by code_simp
  from status_requests_guarded [OF run] run show ?thesis by simp
qed

text \<open>
  Claim C3, as amended. When the PUT of a status transition is rejected, the error shown
  is the \<open>error\<close> field of the response body when that field is there and is not the
  empty string, and otherwise the fallback message with the order's number. Nothing else
  of the view changes but \<open>updatingId\<close>, which is cleared: the list of orders and the
  order in the modal are as before, and no other request is sent.
\<close>

theorem status_change_failure:
  assumes "env_put env = Rejected err"
  shows "handleStatusChange orderId newStatus env st =
           (st\<lparr>ord_updatingId := None,
               ord_error := (case err_error err of
                               None \<Rightarrow> msg_status_update_failed @ String_js orderId
                             | Some e \<Rightarrow> if e = [] then msg_status_update_failed @ String_js orderId
                                         else e)\<rparr>,
            [PutOrderStatus orderId newStatus])"
  using assms
  by (cases "err_error err")
     (simp_all add: handleStatusChange_def orElse_def truthy_def orEmpty_def Let_def)

theorem status_change_failure_witness:
  "env_put env_put_rejected_text
     = Rejected \<lparr>err_error = Some (js ''Invalid transition''), err_message = None\<rparr>
   \<and> handleStatusChange 7 (js ''confirmed'') env_put_rejected_text sample_orders_state
       = (sample_orders_state\<lparr>ord_updatingId := None, ord_error := js ''Invalid transition''\<rparr>,
          [PutOrderStatus 7 (js ''confirmed'')])"
  using status_change_failure [of env_put_rejected_text
      "\<lparr>err_error = Some (js ''Invalid transition''), err_message = None\<rparr>" 7 "js ''confirmed''"
      sample_orders_state]
  by (simp add: env_put_rejected_text_def)

text \<open>The response body \<open>{"error": ""}\<close> has the field, and the view shows the fallback
  message, not the field.\<close>

theorem status_change_failure_counterexample:
  "env_put env_put_rejected_empty = Rejected \<lparr>err_error = Some [], err_message = None\<rparr>
   \<and> ord_error (fst (handleStatusChange 7 (js ''confirmed'') env_put_rejected_empty
                      sample_orders_state))
       = msg_status_update_failed @ js ''7''
   \<and> ord_error (fst (handleStatusChange 7 (js ''confirmed'') env_put_rejected_empty
                      sample_orders_state))
       \<noteq> []"
  by (simp add: handleStatusChange_def env_put_rejected_empty_def orElse_def truthy_def
      msg_status_update_failed_def String_js_7)

text \<open>
  Claim C6, as amended. After a PUT that succeeded, the list of orders is the list the
  re-fetch GET /orders returned, or the list as it was when that re-fetch is rejected;
  the requested status is never written into it. The order open in the modal, when it is
  the order changed, is replaced by the order that GET /orders/id returned; only when
  that request is rejected is its status set to the requested status locally. The
  requests sent are the PUT, the re-fetch of the list and, for the order in the modal,
  the re-fetch of that order.
\<close>

theorem status_change_success:
  assumes "env_put env = Resolved u"
  shows "ord_orders (fst (handleStatusChange orderId newStatus env st))
           = (case env_orders env of Resolved data \<Rightarrow> data | Rejected e \<Rightarrow> ord_orders st)
         \<and> ord_selectedOrder (fst (handleStatusChange orderId newStatus env st))
           = (if map_option o_id (ord_selectedOrder st) = Some orderId
              then (case env_detail env of
                      Resolved data \<Rightarrow> Some data
                    | Rejected e \<Rightarrow>
                        map_option (\<lambda>prev. prev\<lparr>o_status := newStatus\<rparr>) (ord_selectedOrder st))
              else ord_selectedOrder st)
         \<and> snd (handleStatusChange orderId newStatus env st)
           = PutOrderStatus orderId newStatus
             # GetOrders (if ord_activeTab st = js ''all'' then None else Some (ord_activeTab st))
             # (if map_option o_id (ord_selectedOrder st) = Some orderId then [GetOrder orderId]
                else [])"
  using assms
  by (cases "env_orders env"; cases "env_detail env")
     (auto simp: handleStatusChange_def fetchOrders_def Let_def)

theorem status_change_success_witness:
  "env_put env_all_resolved = Resolved ()
   \<and> ord_orders (fst (handleStatusChange 7 (js ''confirmed'') env_all_resolved
                       sample_orders_state))
       = [sample_order\<lparr>o_status := js ''confirmed''\<rparr>]
   \<and> ord_selectedOrder (fst (handleStatusChange 7 (js ''confirmed'') env_all_resolved
                               sample_orders_state))
       = Some (sample_order\<lparr>o_status := js ''confirmed''\<rparr>)
   \<and> snd (handleStatusChange 7 (js ''confirmed'') env_all_resolved sample_orders_state)
       = [PutOrderStatus 7 (js ''confirmed''), GetOrders None, GetOrder 7]"
  using status_change_success [of env_all_resolved "()" 7 "js ''confirmed''" sample_orders_state]
  by (simp add: env_all_resolved_def sample_orders_state_def sample_order_def)

text \<open>The PUT succeeds and both re-fetches are rejected: the modal, which showed the
  order as new, shows it as confirmed, a status no response carried.\<close>

theorem status_change_success_counterexample:
  "env_put env_refetch_rejected = Resolved ()
   \<and> env_orders env_refetch_rejected = Rejected no_body
   \<and> env_detail env_refetch_rejected = Rejected no_body
   \<and> map_option o_status (ord_selectedOrder sample_orders_state) = Some (js ''new'')
   \<and> map_option o_status
        (ord_selectedOrder
           (fst (handleStatusChange 7 (js ''confirmed'') env_refetch_rejected
                   sample_orders_state)))
       = Some (js ''confirmed'')"
  by (simp add: handleStatusChange_def fetchOrders_def env_refetch_rejected_def
      sample_orders_state_def sample_order_def Let_def)

section \<open>Searching the lists\<close>

lemma orderMatches_blank: "trim search = [] \<Longrightarrow> orderMatches toLowerCase search order"
  by (simp add: orderMatches_def)

lemma loyaltyUserMatches_blank:
  "trim search = [] \<Longrightarrow> loyaltyUserMatches toLowerCase search u"
  by (simp add: loyaltyUserMatches_def)

lemma userMatches_blank: "trim search = [] \<Longrightarrow> userMatches toLowerCase search u"
  by (simp add: userMatches_def)




text \<open>
  Claim C10. With a search string that is empty or has only white space (any of the
  code units that \<open>trim\<close> strips), each of the three list views shows its whole list:
  every element, in the original order.
\<close>

theorem blank_search_identity:
  assumes "\<forall>c\<in>set search. isWhiteSpace c"
  shows "filteredOrders toLowerCase (st\<lparr>ord_search := search\<rparr>) = ord_orders st
         \<and> filteredLoyalty toLowerCase (lst\<lparr>loy_search := search\<rparr>) = loy_users lst
         \<and> filteredUsers toLowerCase search users = users"
proof -
  from assms have "trim search = []" by (simp add: trim_Nil_iff)
  then show ?thesis
    by (simp add: filteredOrders_def filteredLoyalty_def filteredUsers_def
        orderMatches_blank loyaltyUserMatches_blank userMatches_blank)
qed

text \<open>A search of a no-break space, a tab and an ideographic space, and the empty
  search.\<close>

theorem blank_search_identity_witness:
  "list_all isWhiteSpace [160, 9, 12288]
   \<and> filteredOrders toLowerCaseBasic (sample_orders_state\<lparr>ord_search := [160, 9, 12288]\<rparr>)
       = [sample_order]
   \<and> filteredLoyalty toLowerCaseBasic (sample_loyalty_state\<lparr>loy_search := [160, 9, 12288]\<rparr>)
       = [sample_loyalty_user]
   \<and> filteredUsers toLowerCaseBasic [160, 9, 12288] [sample_user_item, sample_user_item]
       = [sample_user_item, sample_user_item]
   \<and> filteredUsers toLowerCaseBasic [] [sample_user_item, sample_user_item]
       = [sample_user_item, sample_user_item]"
proof -
  have ws: "list_all isWhiteSpace [160, 9, 12288]" by code_simp
  then have h: "\<forall>c\<in>set [160, 9, 12288]. isWhiteSpace c"
    by (simp only: list_all_iff)
  have e: "\<forall>c\<in>set ([] :: jsstring). isWhiteSpace c" by simp
  note nbsp = blank_search_identity [OF h, of toLowerCaseBasic sample_orders_state
      sample_loyalty_state "[sample_user_item, sample_user_item]"]
  note empty = blank_search_identity [OF e, of toLowerCaseBasic sample_orders_state
      sample_loyalty_state "[sample_user_item, sample_user_item]"]
  from nbsp empty ws show ?thesis
    by (simp add: sample_orders_state_def sample_loyalty_state_def)
qed

section \<open>Loyalty adjustment\<close>


lemma openUserHistory_resolved:
  "loy_history (fst (openUserHistory user (Resolved data) st)) = itemsOf data
   \<and> loy_selectedUser (fst (openUserHistory user (Resolved data) st)) = Some user
   \<and> snd (openUserHistory user (Resolved data) st) = [GetLoyaltyHistory (lu_id user)]"
  by (simp add: openUserHistory_def)




section \<open>Catalog toggles keep the rest\<close>

lemma setField_frame:
  "b_id (setField field v b) = b_id b \<and> b_name (setField field v b) = b_name b
   \<and> b_price (setField field v b) = b_price b \<and> b_category (setField field v b) = b_category b
   \<and> b_images (setField field v b) = b_images b
   \<and> getField f (setField field v b) = (if f = field then v else getField f b)"
  by (cases field; cases f) simp_all

lemma tabItems_setTabItems:
  "tabItems t (setTabItems tab xs d) = (if t = tab then xs else tabItems t d)"
  by (cases t; cases tab) simp_all

text \<open>
  Claim C7. When the request of a toggle succeeds, the list keeps its length and its
  order, and of the record at any position only the flag toggled may change: it becomes
  the value sent when the record has the identifier of the toggle, and every other field
  of that record, and every record with another identifier, is as before. For bouquets the
  flag is any of the three; for constructor items it is \<open>inStock\<close>, in the list of the
  active tab, and the lists of the other tabs are as before. The rest of the view's state
  is unchanged and the only request sent is the partial update: nothing is re-fetched.
  When the request fails the state is unchanged.
\<close>

theorem toggle_frame:
  assumes "i < length (bq_bouquets st)"
    and "j < length (tabItems (cs_activeTab cst) (cs_data cst))"
  shows "(let st' = fst (handleToggle ident field v (Resolved ()) st);
              b = bq_bouquets st ! i; b' = bq_bouquets st' ! i
          in length (bq_bouquets st') = length (bq_bouquets st)
             \<and> b_id b' = b_id b \<and> b_name b' = b_name b \<and> b_price b' = b_price b
             \<and> b_category b' = b_category b \<and> b_images b' = b_images b
             \<and> getField f b' = (if b_id b = ident \<and> f = field then v else getField f b)
             \<and> bq_loading st' = bq_loading st \<and> bq_search st' = bq_search st
             \<and> bq_categoryFilter st' = bq_categoryFilter st
             \<and> snd (handleToggle ident field v (Resolved ()) st) = [PatchBouquetToggle ident field v])
         \<and> (let cst' = fst (handleToggleStock item (Resolved ()) cst);
                 tab = cs_activeTab cst;
                 c = tabItems tab (cs_data cst) ! j; c' = tabItems tab (cs_data cst') ! j
             in length (tabItems tab (cs_data cst')) = length (tabItems tab (cs_data cst))
                \<and> ci_id c' = ci_id c \<and> ci__id c' = ci__id c \<and> ci_name c' = ci_name c
                \<and> ci_price c' = ci_price c
                \<and> ci_inStock c' = (if itemIdOf c = itemIdOf item then Some (notInStock item)
                                    else ci_inStock c)
                \<and> (t \<noteq> tab \<longrightarrow> tabItems t (cs_data cst') = tabItems t (cs_data cst))
                \<and> cst'\<lparr>cs_data := cs_data cst\<rparr> = cst
                \<and> snd (handleToggleStock item (Resolved ()) cst)
                    = [PutConstructorItem tab (itemIdOf item) (notInStock item)])
         \<and> handleToggle ident field v (Rejected e) st = (st, [PatchBouquetToggle ident field v])
         \<and> fst (handleToggleStock item (Rejected e) cst) = cst"
  using assms
  by (simp add: handleToggle_def handleToggleStock_def Let_def setField_frame
      tabItems_setTabItems itemIdOf_def)

theorem toggle_frame_witness:
  "bq_bouquets (fst (handleToggle 5 IsHit False (Resolved ()) sample_bouquets_state))
     = [bq_bouquets sample_bouquets_state ! 0,
        (bq_bouquets sample_bouquets_state ! 1)\<lparr>b_isHit := False\<rparr>]
   \<and> getField IsHit (bq_bouquets (fst (handleToggle 5 IsHit False (Resolved ()) sample_bouquets_state)) ! 1)
       = False
   \<and> getField IsNew (bq_bouquets (fst (handleToggle 5 IsHit False (Resolved ()) sample_bouquets_state)) ! 1)
       = getField IsNew (bq_bouquets sample_bouquets_state ! 1)
   \<and> ci_inStock (flowers (cs_data (fst (handleToggleStock sample_item (Resolved ())
                     sample_constructor_state))) ! 1)
       = Some False
   \<and> greenery (cs_data (fst (handleToggleStock sample_item (Resolved ()) sample_constructor_state)))
       = greenery (cs_data sample_constructor_state)
   \<and> snd (handleToggleStock sample_item (Resolved ()) sample_constructor_state)
       = [PutConstructorItem Flowers (Some (js ''f2'')) False]"
proof -
  have h1: "1 < length (bq_bouquets sample_bouquets_state)"
    by (simp add: sample_bouquets_state_def)
  have h2: "1 < length (tabItems (cs_activeTab sample_constructor_state)
                          (cs_data sample_constructor_state))"
    by (simp add: sample_constructor_state_def)
  have l: "bq_bouquets (fst (handleToggle 5 IsHit False (Resolved ()) sample_bouquets_state))
     = [bq_bouquets sample_bouquets_state ! 0,
        (bq_bouquets sample_bouquets_state ! 1)\<lparr>b_isHit := False\<rparr>]"
    by (simp add: handleToggle_def sample_bouquets_state_def)
  have tab: "cs_activeTab sample_constructor_state = Flowers"
    by (simp add: sample_constructor_state_def)
  have ids: "itemIdOf (flowers (cs_data sample_constructor_state) ! 1) = itemIdOf sample_item"
    "notInStock sample_item = False" "itemIdOf sample_item = Some (js ''f2'')"
    by (simp_all add: sample_constructor_state_def sample_item_def itemIdOf_def notInStock_def
        truthy_def)
  from toggle_frame [OF h1 h2, of 5 IsHit False IsHit sample_item Greenery no_body]
    toggle_frame [OF h1 h2, of 5 IsHit False IsNew sample_item Greenery no_body]
    l tab ids
  show ?thesis by (simp add: Let_def)
qed

section \<open>The authentication check at start\<close>

text \<open>
  Claim C8. A token is stored and the check GET /auth/me fails: the token is removed from
  local storage under the key \<open>rosa_admin_token\<close>, every other key is kept, the flag is
  false, and the check was requested once and not again. With the flag false every path
  renders the login screen, at /login itself or through the redirect to it.
\<close>

theorem auth_check_failure:
  assumes "truthy (storage tokenKey)"
  shows "appMount (Rejected e) storage = ((storage(tokenKey := None), Some False), [GetAuthMe])
         \<and> tokenKey = js ''rosa_admin_token''
         \<and> render (Some False) path \<in> {LoginScreen, NavigateTo (js ''/login'')}
         \<and> screenShown (Some False) path = LoginScreen"
  using assms by (simp add: appMount_def render_def screenShown_def tokenKey_def)

theorem auth_check_failure_witness:
  "truthy (sample_storage tokenKey)
   \<and> fst (fst (appMount (Rejected no_body) sample_storage)) tokenKey = None
   \<and> fst (fst (appMount (Rejected no_body) sample_storage)) (js ''theme'') = Some (js ''light'')
   \<and> snd (fst (appMount (Rejected no_body) sample_storage)) = Some False
   \<and> snd (appMount (Rejected no_body) sample_storage) = [GetAuthMe]
   \<and> screenShown (Some False) (js ''/orders'') = LoginScreen"
proof -
  have h: "truthy (sample_storage tokenKey)"
    by (simp add: sample_storage_def truthy_def tokenKey_def)
  from auth_check_failure [of sample_storage no_body "js ''/orders''", OF h] h
  show ?thesis by (simp add: sample_storage_def tokenKey_def)
qed

section \<open>Broadcast\<close>

text \<open>
  Claim C9. \<open>handleSend\<close> sends nothing and changes nothing when the message is empty or
  all white space, which is any of the code units that \<open>trim\<close> strips.
  Whatever the message and the answers, it sends no request or exactly
  one POST /broadcast, whose message is the trimmed text, which is then not empty. The
  send button is disabled exactly when a send is in flight or the message is empty or all
  white space; in particular it is disabled in the state the handler leaves while its
  request is in flight.
\<close>

theorem broadcast_guard:
  "((\<forall>c\<in>set (bc_message st). isWhiteSpace c) \<longrightarrow> handleSend confirmed res st = (st, []))
   \<and> (snd (handleSend confirmed res st) = []
        \<or> snd (handleSend confirmed res st) = [PostBroadcast (trim (bc_message st))]
          \<and> trim (bc_message st) \<noteq> [])
   \<and> (sendDisabled st \<longleftrightarrow> bc_sending st \<or> (\<forall>c\<in>set (bc_message st). isWhiteSpace c))
   \<and> (snd (handleSendStart confirmed st) \<noteq> [] \<longrightarrow> sendDisabled (fst (handleSendStart confirmed st)))"
proof -
  have blank: "trim (bc_message st) = [] \<longleftrightarrow> (\<forall>c\<in>set (bc_message st). isWhiteSpace c)"
    by (rule trim_Nil_iff)
  have unsent: "handleSend confirmed res st = (st, [])" if "trim (bc_message st) = []"
    using that by (simp add: handleSend_def handleSendStart_def)
  have requests: "snd (handleSend confirmed res st) = []
      \<or> snd (handleSend confirmed res st) = [PostBroadcast (trim (bc_message st))]
        \<and> trim (bc_message st) \<noteq> []"
  proof (cases "trim (bc_message st) = [] \<or> \<not> confirmed")
    case True
    then show ?thesis by (auto simp: handleSend_def handleSendStart_def)
  next
    case False
    then show ?thesis by (simp add: handleSend_def handleSendStart_def)
  qed
  have button: "sendDisabled st \<longleftrightarrow> bc_sending st \<or> trim (bc_message st) = []"
    by (simp add: sendDisabled_def)
  have in_flight: "sendDisabled (fst (handleSendStart confirmed st))"
    if "snd (handleSendStart confirmed st) \<noteq> []"
    using that by (simp add: handleSendStart_def sendDisabled_def split: if_splits)
  from unsent have a: "(\<forall>c\<in>set (bc_message st). isWhiteSpace c)
      \<longrightarrow> handleSend confirmed res st = (st, [])"
    by (simp add: blank)
  from button have c: "sendDisabled st
      \<longleftrightarrow> bc_sending st \<or> (\<forall>c\<in>set (bc_message st). isWhiteSpace c)"
    by (simp add: blank)
  from in_flight have d: "snd (handleSendStart confirmed st) \<noteq> []
      \<longrightarrow> sendDisabled (fst (handleSendStart confirmed st))"
    by (rule impI)
  from a requests c d show ?thesis by (intro conjI)
qed

text \<open>The message of a no-break space, a space and an en space is not sent; of the
  message with white space around its text, the text is sent.\<close>

theorem broadcast_guard_witness:
  "list_all isWhiteSpace (bc_message sample_broadcast_blank)
   \<and> bc_message sample_broadcast_blank = [160, 32, 8195]
   \<and> handleSend True (Rejected no_body) sample_broadcast_blank = (sample_broadcast_blank, [])
   \<and> sendDisabled sample_broadcast_blank
   \<and> snd (handleSend True (Rejected no_body) sample_broadcast_state)
       = [PostBroadcast (js ''Sale on Friday'')]
   \<and> snd (handleSend False (Rejected no_body) sample_broadcast_state) = []
   \<and> sendDisabled (fst (handleSendStart True sample_broadcast_state))"
proof -
  have ws: "list_all isWhiteSpace (bc_message sample_broadcast_blank)" by code_simp
  then have h: "\<forall>c\<in>set (bc_message sample_broadcast_blank). isWhiteSpace c"
    by (simp only: list_all_iff)
  have m: "bc_message sample_broadcast_blank = [160, 32, 8195]"
    by (simp add: sample_broadcast_blank_def)
  have t: "trim (bc_message sample_broadcast_state) = js ''Sale on Friday''" by code_simp
  have s: "snd (handleSendStart True sample_broadcast_state)
      = [PostBroadcast (js ''Sale on Friday'')]"
    "snd (handleSend True (Rejected no_body) sample_broadcast_state)
      = [PostBroadcast (js ''Sale on Friday'')]"
    "snd (handleSend False (Rejected no_body) sample_broadcast_state) = []"
    by (simp_all add: handleSendStart_def handleSend_def t)
  from broadcast_guard [of sample_broadcast_blank True "Rejected no_body"]
    broadcast_guard [of sample_broadcast_state True "Rejected no_body"] h ws s m
  show ?thesis by simp
qed

end
